theory Spec2Isabelle
  imports Complex_Main "HOL-Library.Char_ord" "HOL-Library.List_Lexorder"
begin

section \<open>Python values, exceptions and built-ins used by app.py\<close>

text \<open>
  The module \<^verbatim>\<open>KrushiAI-Crop-Recommendation/app.py\<close> inspects the run-time type of the
  values a pickled classifier hands back. The value type below has one constructor for
  each kind of value the \<^verbatim>\<open>isinstance\<close> tests of the module tell apart.

  A numpy array of one or more dimensions is the list of its items along the first axis
  (numpy scalars for a one-dimensional array, sub-arrays otherwise). A zero-dimensional
  array (shape \<^verbatim>\<open>()\<close>) wraps a single scalar and has no length.
  An object of any other type (a float, \<^verbatim>\<open>None\<close>, a dict, ...) is represented by the
  text \<^verbatim>\<open>str()\<close> returns for it.
\<close>

datatype pyval =
    PyInt int
  | PyBool bool
  | NpInteger int
  | PyStr string
  | NpStr string
  | PyList "pyval list"
  | NdArray "pyval list"
  | NdArray0 pyval
  | PyOther string

datatype py_error = TypeError | IndexError | ValueError | KeyError | LibraryError

text \<open>Decimal rendering of an integer, as \<^verbatim>\<open>str(int)\<close> gives it.\<close>

fun str_nat :: "nat \<Rightarrow> string" where
  "str_nat n =
     (if n < 10 then [''0123456789'' ! n]
      else str_nat (n div 10) @ [''0123456789'' ! (n mod 10)])"

declare str_nat.simps [simp del]

definition str_int :: "int \<Rightarrow> string" where
  "str_int i = (if i < 0 then CHR ''-'' # str_nat (nat (- i)) else str_nat (nat i))"

text \<open>
  \<^verbatim>\<open>str(v)\<close>. The text of a list or of an array is produced by the interpreter and by
  numpy (element \<^verbatim>\<open>repr\<close>s, line wrapping, summarisation); it is taken as the parameter
  \<open>render\<close>. \<^verbatim>\<open>str\<close> of the values modelled here does not raise.
\<close>

definition py_str :: "(pyval \<Rightarrow> string) \<Rightarrow> pyval \<Rightarrow> string" where
  "py_str render v =
     (case v of
        PyInt i \<Rightarrow> str_int i
      | PyBool b \<Rightarrow> (if b then ''True'' else ''False'')
      | NpInteger i \<Rightarrow> str_int i
      | PyStr s \<Rightarrow> s
      | NpStr s \<Rightarrow> s
      | PyOther s \<Rightarrow> s
      | _ \<Rightarrow> render v)"

text \<open>\<^verbatim>\<open>isinstance(v, (np.ndarray, list))\<close>\<close>

definition is_ndarray_or_list :: "pyval \<Rightarrow> bool" where
  "is_ndarray_or_list v =
     (case v of PyList _ \<Rightarrow> True | NdArray _ \<Rightarrow> True | NdArray0 _ \<Rightarrow> True | _ \<Rightarrow> False)"

text \<open>\<^verbatim>\<open>isinstance(v, (np.integer, int))\<close>; \<^verbatim>\<open>bool\<close> is a subclass of \<^verbatim>\<open>int\<close>.\<close>

definition is_integer :: "pyval \<Rightarrow> bool" where
  "is_integer v =
     (case v of PyInt _ \<Rightarrow> True | PyBool _ \<Rightarrow> True | NpInteger _ \<Rightarrow> True | _ \<Rightarrow> False)"

text \<open>\<^verbatim>\<open>isinstance(v, (np.str_, str))\<close>\<close>

definition is_string :: "pyval \<Rightarrow> bool" where
  "is_string v = (case v of PyStr _ \<Rightarrow> True | NpStr _ \<Rightarrow> True | _ \<Rightarrow> False)"

text \<open>\<^verbatim>\<open>int(v)\<close> on a value that passed the integer test.\<close>

definition py_int :: "pyval \<Rightarrow> int" where
  "py_int v =
     (case v of PyInt i \<Rightarrow> i | NpInteger i \<Rightarrow> i | PyBool b \<Rightarrow> (if b then 1 else 0) | _ \<Rightarrow> 0)"

text \<open>
  \<^verbatim>\<open>len(v)\<close>: the number of items of a list, the size of the first axis of an array.
  A zero-dimensional array is unsized and \<^verbatim>\<open>len\<close> raises \<^verbatim>\<open>TypeError\<close>, as it does for
  every value without \<^verbatim>\<open>__len__\<close>.
\<close>

definition py_len :: "pyval \<Rightarrow> py_error + nat" where
  "py_len v =
     (case v of
        PyList xs \<Rightarrow> Inr (length xs)
      | NdArray xs \<Rightarrow> Inr (length xs)
      | PyStr s \<Rightarrow> Inr (length s)
      | NpStr s \<Rightarrow> Inr (length s)
      | _ \<Rightarrow> Inl TypeError)"

text \<open>
  \<^verbatim>\<open>v[i]\<close> for a non-negative index: \<^verbatim>\<open>IndexError\<close> out of range (and for any index
  into a zero-dimensional array or a numpy scalar), \<^verbatim>\<open>TypeError\<close> on a value that is not
  subscriptable.
\<close>

definition py_getitem :: "pyval \<Rightarrow> nat \<Rightarrow> py_error + pyval" where
  "py_getitem v i =
     (case v of
        PyList xs \<Rightarrow> (if i < length xs then Inr (xs ! i) else Inl IndexError)
      | NdArray xs \<Rightarrow> (if i < length xs then Inr (xs ! i) else Inl IndexError)
      | PyStr s \<Rightarrow> (if i < length s then Inr (PyStr [s ! i]) else Inl IndexError)
      | NpStr s \<Rightarrow> (if i < length s then Inr (PyStr [s ! i]) else Inl IndexError)
      | NdArray0 _ \<Rightarrow> Inl IndexError
      | NpInteger _ \<Rightarrow> Inl IndexError
      | _ \<Rightarrow> Inl TypeError)"

section \<open>Module state: crop catalogue, label encoder, fallback mapping\<close>

text \<open>
  \<^verbatim>\<open>crop_info\<close> is the dict read from \<^verbatim>\<open>crop_info.json\<close>: an association list in
  insertion order, whose keys are pairwise distinct as those of any dict.
  \<^verbatim>\<open>crop_info.get(key, default)\<close> is \<open>dict_get\<close>.
\<close>

type_synonym crop_catalog = "(string \<times> string) list"

definition dict_get :: "('k \<times> 'v) list \<Rightarrow> 'k \<Rightarrow> 'v \<Rightarrow> 'v" where
  "dict_get d key dflt = (case map_of d key of Some v \<Rightarrow> v | None \<Rightarrow> dflt)"

text \<open>
  \<^verbatim>\<open>label_encoder\<close> is \<^verbatim>\<open>None\<close> or an unpickled object; what is used of it is
  \<^verbatim>\<open>inverse_transform\<close>, applied to a list of integers and returning a sequence, or
  raising.
\<close>

type_synonym encoder = "int list \<Rightarrow> py_error + pyval"

text \<open>
  \<^verbatim>\<open>alphabetical_classes = sorted(crop_info.keys())\<close>: Python orders strings
  lexicographically by code point, which is the order of \<^typ>\<open>char list\<close>.
\<close>

definition alphabetical_classes :: "crop_catalog \<Rightarrow> string list" where
  "alphabetical_classes crop_info = sort (map fst crop_info)"

text \<open>\<^verbatim>\<open>int_to_class = {i: cls for i, cls in enumerate(alphabetical_classes)}\<close>\<close>

definition int_to_class :: "crop_catalog \<Rightarrow> (int \<times> string) list" where
  "int_to_class crop_info =
     map (\<lambda>(i, cls). (int i, cls)) (enumerate 0 (alphabetical_classes crop_info))"

section \<open>Label resolution\<close>

text \<open>
  The \<^verbatim>\<open>try\<close> block shared by \<^verbatim>\<open>to_crop_name\<close> and \<^verbatim>\<open>map_class_label\<close>:
  \<^verbatim>\<open>str(label_encoder.inverse_transform([int(v)])[0])\<close>, where every exception is
  swallowed by \<^verbatim>\<open>except Exception: pass\<close>. \<open>None\<close> is "no encoder, or the block raised".
\<close>

definition encoder_lookup ::
    "(pyval \<Rightarrow> string) \<Rightarrow> encoder option \<Rightarrow> int \<Rightarrow> string option" where
  "encoder_lookup render label_encoder i =
     (case label_encoder of
        None \<Rightarrow> None
      | Some inverse_transform \<Rightarrow>
          (case inverse_transform [i] of
             Inl _ \<Rightarrow> None
           | Inr ys \<Rightarrow>
               (case py_getitem ys 0 of
                  Inl _ \<Rightarrow> None
                | Inr y \<Rightarrow> Some (py_str render y))))"

text \<open>
  \<^verbatim>\<open>to_crop_name(pred_val)\<close>. The first statement evaluates \<^verbatim>\<open>len(pred_val)\<close> on every
  list and every array; an exception raised there leaves the function.
\<close>

definition to_crop_name ::
    "(pyval \<Rightarrow> string) \<Rightarrow> encoder option \<Rightarrow> crop_catalog \<Rightarrow> pyval \<Rightarrow> py_error + string" where
  "to_crop_name render label_encoder crop_info pred_val =
     (case (if is_ndarray_or_list pred_val
            then (case py_len pred_val of
                    Inl e \<Rightarrow> Inl e
                  | Inr n \<Rightarrow> (if n = 1 then py_getitem pred_val 0 else Inr pred_val))
            else Inr pred_val) of
        Inl e \<Rightarrow> Inl e
      | Inr pv \<Rightarrow>
          (if is_integer pv then
             (case encoder_lookup render label_encoder (py_int pv) of
                Some s \<Rightarrow> Inr s
              | None \<Rightarrow>
                  Inr (dict_get (int_to_class crop_info) (py_int pv) (py_str render pv)))
           else if is_string pv then Inr (py_str render pv)
           else Inr (py_str render pv)))"

text \<open>\<^verbatim>\<open>map_class_label(cls_val)\<close>: the same rule without the unwrapping step.\<close>

definition map_class_label ::
    "(pyval \<Rightarrow> string) \<Rightarrow> encoder option \<Rightarrow> crop_catalog \<Rightarrow> pyval \<Rightarrow> string" where
  "map_class_label render label_encoder crop_info cls_val =
     (if is_string cls_val then py_str render cls_val
      else if is_integer cls_val then
        (case encoder_lookup render label_encoder (py_int cls_val) of
           Some s \<Rightarrow> s
         | None \<Rightarrow> dict_get (int_to_class crop_info) (py_int cls_val) (py_str render cls_val))
      else py_str render cls_val)"

section \<open>Catalogue lookup\<close>

text \<open>
  \<^verbatim>\<open>str.lower()\<close> on the ASCII range, where crop names live: the letters A to Z are
  replaced by a to z and every other character is kept.
\<close>

definition py_lower_char :: "char \<Rightarrow> char" where
  "py_lower_char c =
     (case map_of (zip ''ABCDEFGHIJKLMNOPQRSTUVWXYZ'' ''abcdefghijklmnopqrstuvwxyz'') c of
        Some l \<Rightarrow> l
      | None \<Rightarrow> c)"

definition py_lower :: "string \<Rightarrow> string" where
  "py_lower s = map py_lower_char s"

definition no_info :: string where
  "no_info = ''No information available for this crop.''"

text \<open>
  The expression \<^verbatim>\<open>crop_info.get(label.lower(), 'No information available for this crop.')\<close>,
  written out in \<^verbatim>\<open>top_k_predictions\<close> and, through \<^verbatim>\<open>crop_key\<close>, in \<^verbatim>\<open>predict\<close>.
\<close>

definition crop_info_for :: "crop_catalog \<Rightarrow> string \<Rightarrow> string" where
  "crop_info_for crop_info lbl = dict_get crop_info (py_lower lbl) no_info"

section \<open>The classifier and top-k ranking\<close>

text \<open>
  The unpickled \<^verbatim>\<open>model\<close>. \<^verbatim>\<open>predict\<close> and \<^verbatim>\<open>predict_proba\<close> take the feature matrix and
  return or raise; \<^verbatim>\<open>predict_proba\<close> and \<^verbatim>\<open>classes_\<close> are attributes the object may lack
  (\<^verbatim>\<open>hasattr\<close> is false: \<open>None\<close>). Probabilities are finite floats, compared but never
  computed with; they are modelled as reals. \<^verbatim>\<open>predict_proba\<close> returns one row of
  probabilities for each row of features.
\<close>

record classifier =
  model_predict :: "real list list \<Rightarrow> py_error + pyval"
  model_predict_proba :: "(real list list \<Rightarrow> py_error + real list list) option"
  model_classes :: "pyval option"

text \<open>The classifier invocations a call makes, in order.\<close>

datatype invocation = Predict | PredictProba

record ranked =
  label :: string
  probability :: real
  info :: string

text \<open>
  \<^verbatim>\<open>np.argsort(probs)\<close> is numpy's, called with its default kind, which is not stable: the
  order in which it returns the indices of equal values is not fixed. It is the parameter
  \<open>argsort\<close> of the ranking, and what numpy promises of it on the row \<open>probs\<close> is the
  contract below: the result holds each index of \<open>probs\<close> once, and the values at those
  indices ascend.
\<close>

definition argsort_contract :: "(real list \<Rightarrow> nat list) \<Rightarrow> real list \<Rightarrow> bool" where
  "argsort_contract argsort probs =
     (sort (argsort probs) = [0..<length probs] \<and>
      sorted (map (\<lambda>i. probs ! i) (argsort probs)))"

text \<open>The slice \<^verbatim>\<open>xs[:k]\<close>; a negative \<open>k\<close> counts from the end.\<close>

definition py_slice_upto :: "int \<Rightarrow> 'a list \<Rightarrow> 'a list" where
  "py_slice_upto k xs =
     (if 0 \<le> k then take (nat k) xs else take (length xs - nat (- k)) xs)"

text \<open>\<^verbatim>\<open>indices = np.argsort(probs)[::-1][:k]\<close>\<close>

definition top_k_indices :: "(real list \<Rightarrow> nat list) \<Rightarrow> real list \<Rightarrow> int \<Rightarrow> nat list" where
  "top_k_indices argsort probs k = py_slice_upto k (rev (argsort probs))"

text \<open>
  The \<^verbatim>\<open>for idx in indices\<close> loop of \<^verbatim>\<open>top_k_predictions\<close>. \<^verbatim>\<open>classes[idx]\<close> raises when
  \<^verbatim>\<open>classes_\<close> is shorter than the probability row, and \<^verbatim>\<open>probs[idx]\<close> raises on an index
  outside the row.
\<close>

fun rank_entries ::
    "(pyval \<Rightarrow> string) \<Rightarrow> encoder option \<Rightarrow> crop_catalog \<Rightarrow> pyval \<Rightarrow> real list \<Rightarrow>
     nat list \<Rightarrow> py_error + ranked list" where
  "rank_entries render label_encoder crop_info classes probs [] = Inr []"
| "rank_entries render label_encoder crop_info classes probs (idx # rest) =
     (case py_getitem classes idx of
        Inl e \<Rightarrow> Inl e
      | Inr cls \<Rightarrow>
          (let lbl = map_class_label render label_encoder crop_info cls
           in if length probs \<le> idx then Inl IndexError
              else
                (let p = probs ! idx;
                     inf = crop_info_for crop_info lbl
                 in case rank_entries render label_encoder crop_info classes probs rest of
                      Inl e \<Rightarrow> Inl e
                    | Inr results \<Rightarrow>
                        Inr (\<lparr>label = lbl, probability = p, info = inf\<rparr> # results))))"

text \<open>
  \<^verbatim>\<open>top_k_predictions(features, k)\<close>: the invocations made and the outcome, where
  \<open>Inr None\<close> is the returned \<^verbatim>\<open>None\<close>. \<^verbatim>\<open>predict_proba\<close> is called before \<^verbatim>\<open>classes_\<close> is
  looked for.
\<close>

definition top_k_predictions ::
    "(pyval \<Rightarrow> string) \<Rightarrow> (real list \<Rightarrow> nat list) \<Rightarrow> encoder option \<Rightarrow> crop_catalog \<Rightarrow>
     classifier \<Rightarrow> real list list \<Rightarrow> int \<Rightarrow> invocation list \<times> (py_error + ranked list option)" where
  "top_k_predictions render argsort label_encoder crop_info model features k =
     (case model_predict_proba model of
        None \<Rightarrow> ([], Inr None)
      | Some predict_proba \<Rightarrow>
          (case predict_proba features of
             Inl e \<Rightarrow> ([PredictProba], Inl e)
           | Inr proba \<Rightarrow>
               (case model_classes model of
                  None \<Rightarrow> ([PredictProba], Inr None)
                | Some classes \<Rightarrow>
                    (case proba of
                       [] \<Rightarrow> ([PredictProba], Inl IndexError)
                     | probs # _ \<Rightarrow>
                         (case rank_entries render label_encoder crop_info classes probs
                                 (top_k_indices argsort probs k) of
                            Inl e \<Rightarrow> ([PredictProba], Inl e)
                          | Inr results \<Rightarrow> ([PredictProba], Inr (Some results)))))))"

section \<open>The /predict handler\<close>

text \<open>The value of \<^verbatim>\<open>request.get_json(silent=True)\<close>; a JSON object is the list of its items.\<close>

datatype json =
    JNull
  | JBool bool
  | JNum real
  | JStr string
  | JArr "json list"
  | JObj "(string \<times> json) list"

text \<open>
  \<^verbatim>\<open>float(x)\<close> on a JSON value. Parsing the text of a string is the interpreter's and is
  the parameter \<open>parse\<close> (\<open>None\<close>: \<^verbatim>\<open>ValueError\<close>).
\<close>

definition py_float :: "(string \<Rightarrow> real option) \<Rightarrow> json \<Rightarrow> py_error + real" where
  "py_float parse x =
     (case x of
        JNum r \<Rightarrow> Inr r
      | JBool b \<Rightarrow> Inr (if b then 1 else 0)
      | JStr s \<Rightarrow> (case parse s of Some r \<Rightarrow> Inr r | None \<Rightarrow> Inl ValueError)
      | _ \<Rightarrow> Inl TypeError)"

definition required :: "string list" where
  "required =
     [''nitrogen'', ''phosphorus'', ''potassium'', ''temperature'', ''humidity'', ''ph'',
      ''rainfall'']"

text \<open>The loop \<^verbatim>\<open>for key in required: if key not in data: return ...\<close>\<close>

fun first_missing :: "string list \<Rightarrow> (string \<times> json) list \<Rightarrow> string option" where
  "first_missing [] data = None"
| "first_missing (key # keys) data =
     (if key \<notin> set (map fst data) then Some key else first_missing keys data)"

text \<open>The seven casts \<^verbatim>\<open>float(data[key])\<close>, evaluated in the order of \<open>required\<close>.\<close>

fun cast_features ::
    "(string \<Rightarrow> real option) \<Rightarrow> (string \<times> json) list \<Rightarrow> string list \<Rightarrow> py_error + real list" where
  "cast_features parse data [] = Inr []"
| "cast_features parse data (key # keys) =
     (case map_of data key of
        None \<Rightarrow> Inl KeyError
      | Some x \<Rightarrow>
          (case py_float parse x of
             Inl e \<Rightarrow> Inl e
           | Inr v \<Rightarrow>
               (case cast_features parse data keys of
                  Inl e \<Rightarrow> Inl e
                | Inr vs \<Rightarrow> Inr (v # vs))))"

text \<open>
  The JSON body of a response: \<^verbatim>\<open>{'error': message}\<close>, \<^verbatim>\<open>{'error': str(e)}\<close> for a caught
  exception, or \<^verbatim>\<open>{'prediction': ..., 'info': ..., 'top_3': ...}\<close> where the last field
  may be left out.
\<close>

datatype body =
    ErrorBody string
  | ExceptionBody py_error
  | PredictionBody string string "ranked list option"

text \<open>
  \<^verbatim>\<open>predict()\<close>: the classifier invocations made, the body and the HTTP status.
  \<^verbatim>\<open>if top3:\<close> is false for \<^verbatim>\<open>None\<close> and for the empty list.
\<close>

definition predict ::
    "(pyval \<Rightarrow> string) \<Rightarrow> (real list \<Rightarrow> nat list) \<Rightarrow> (string \<Rightarrow> real option) \<Rightarrow>
     encoder option \<Rightarrow> crop_catalog \<Rightarrow> classifier \<Rightarrow> json option \<Rightarrow>
     invocation list \<times> body \<times> nat" where
  "predict render argsort parse label_encoder crop_info model request_json =
     (case request_json of
        Some (JObj data) \<Rightarrow>
          (case first_missing required data of
             Some key \<Rightarrow> ([], ErrorBody (''Missing field: '' @ key), 400)
           | None \<Rightarrow>
               (case cast_features parse data required of
                  Inl e \<Rightarrow> ([], ExceptionBody e, 500)
                | Inr row \<Rightarrow>
                    (case model_predict model [row] of
                       Inl e \<Rightarrow> ([Predict], ExceptionBody e, 500)
                     | Inr prediction \<Rightarrow>
                         (case py_getitem prediction 0 of
                            Inl e \<Rightarrow> ([Predict], ExceptionBody e, 500)
                          | Inr p0 \<Rightarrow>
                              (case to_crop_name render label_encoder crop_info p0 of
                                 Inl e \<Rightarrow> ([Predict], ExceptionBody e, 500)
                               | Inr label_str \<Rightarrow>
                                   (case top_k_predictions render argsort label_encoder crop_info
                                           model [row] 3 of
                                      (calls, Inl e) \<Rightarrow> (Predict # calls, ExceptionBody e, 500)
                                    | (calls, Inr top3) \<Rightarrow>
                                        (Predict # calls,
                                         PredictionBody label_str
                                           (crop_info_for crop_info label_str)
                                           (case top3 of
                                              None \<Rightarrow> None
                                            | Some [] \<Rightarrow> None
                                            | Some results \<Rightarrow> Some results),
                                         200)))))))
      | _ \<Rightarrow> ([], ErrorBody ''Invalid JSON body'', 400))"

section \<open>Example inputs\<close>

text \<open>
  Concrete collaborators used to run the definitions: a rendering for containers, classifiers
  with and without probability output, a three-entry catalogue and a complete request body.
\<close>

definition plain_render :: "pyval \<Rightarrow> string" where
  "plain_render v = ''[...]''"

text \<open>
  An \<open>argsort\<close> that meets the contract on every row: the insertion sort of the indices,
  which is what numpy's default kind runs on an array of at most 16 elements. It leaves the
  indices of equal values in index order.
\<close>

definition short_argsort :: "real list \<Rightarrow> nat list" where
  "short_argsort probs = sort_key (\<lambda>i. probs ! i) [0..<length probs]"

definition raise_library_error :: "real list list \<Rightarrow> py_error + 'a" where
  "raise_library_error features = Inl LibraryError"

definition unfitted_model :: classifier where
  "unfitted_model =
     \<lparr>model_predict = raise_library_error, model_predict_proba = Some raise_library_error,
      model_classes = None\<rparr>"

definition even_odds :: "real list list \<Rightarrow> py_error + real list list" where
  "even_odds features = Inr [[1 / 2, 1 / 2]]"

definition first_class :: "real list list \<Rightarrow> py_error + pyval" where
  "first_class features = Inr (NdArray [NpStr ''rice''])"

definition tie_model :: classifier where
  "tie_model =
     \<lparr>model_predict = first_class, model_predict_proba = Some even_odds,
      model_classes = Some (NdArray [NpStr ''rice'', NpStr ''maize''])\<rparr>"

definition spec_odds :: "real list list \<Rightarrow> py_error + real list list" where
  "spec_odds features = Inr [[1 / 10, 7 / 10, 1 / 5]]"

definition spec_model :: classifier where
  "spec_model =
     \<lparr>model_predict = first_class, model_predict_proba = Some spec_odds,
      model_classes = Some (NdArray [NpStr ''rice'', NpStr ''maize'', NpStr ''jute''])\<rparr>"

definition predict_zero :: "real list list \<Rightarrow> py_error + pyval" where
  "predict_zero features = Inr (NdArray [NpInteger 0])"

definition label_only_model :: classifier where
  "label_only_model =
     \<lparr>model_predict = predict_zero, model_predict_proba = None, model_classes = None\<rparr>"

definition example_catalog :: crop_catalog where
  "example_catalog =
     [(''banana'', ''Banana info''), (''rice'', ''Rice info''), (''wheat'', ''Wheat info'')]"

definition example_request :: "(string \<times> json) list" where
  "example_request =
     [(''nitrogen'', JNum 50), (''phosphorus'', JNum 40), (''potassium'', JNum 30),
      (''temperature'', JNum 25), (''humidity'', JNum 80), (''ph'', JNum 6),
      (''rainfall'', JNum 100)]"

definition no_parse :: "string \<Rightarrow> real option" where
  "no_parse s = None"

section \<open>Properties of label resolution\<close>

lemma is_integer_not_container: "is_integer v \<Longrightarrow> \<not> is_ndarray_or_list v"
  by (cases v) (simp_all add: is_integer_def is_ndarray_or_list_def)

lemma to_crop_name_scalar:
  "\<not> is_ndarray_or_list v \<Longrightarrow>
   to_crop_name render le ci v =
     Inr (if is_integer v then
            (case encoder_lookup render le (py_int v) of
               Some s \<Rightarrow> s
             | None \<Rightarrow> dict_get (int_to_class ci) (py_int v) (py_str render v))
          else py_str render v)"
  by (simp add: to_crop_name_def split: option.splits)

text \<open>
  C8. A string-typed input (\<^verbatim>\<open>str\<close> or \<^verbatim>\<open>np.str_\<close>) is returned unchanged by
  \<^verbatim>\<open>to_crop_name\<close>, whatever the label encoder and the fallback mapping are.
\<close>

theorem to_crop_name_string_unchanged:
  "to_crop_name render label_encoder crop_info (PyStr s) = Inr s \<and>
   to_crop_name render label_encoder crop_info (NpStr s) = Inr s"
  by (simp add: to_crop_name_def is_ndarray_or_list_def is_integer_def is_string_def py_str_def)

text \<open>
  Every input other than a zero-dimensional array is resolved to a string: the only
  statement of \<^verbatim>\<open>to_crop_name\<close> that can raise is \<^verbatim>\<open>len(pred_val)\<close>.
\<close>

lemma to_crop_name_sized_returns:
  "(\<forall>x. v \<noteq> NdArray0 x) \<Longrightarrow> \<exists>s. to_crop_name render le ci v = Inr s"
  by (cases v)
     (auto simp add: to_crop_name_def is_ndarray_or_list_def py_len_def py_getitem_def
        split: option.splits sum.splits)

text \<open>
  C1. \<^verbatim>\<open>to_crop_name\<close> is to return a string for every input, numpy arrays of any shape
  included. On a zero-dimensional array holding the integer 3 (\<^verbatim>\<open>np.array(3)\<close>) the
  \<^verbatim>\<open>isinstance\<close> test succeeds, \<^verbatim>\<open>len\<close> raises \<^verbatim>\<open>TypeError\<close> and the exception leaves
  the function, for every encoder and catalogue.
\<close>

theorem to_crop_name_unsized_array_raises:
  "to_crop_name render label_encoder crop_info (NdArray0 (NpInteger 3)) = Inl TypeError"
  by (simp add: to_crop_name_def is_ndarray_or_list_def py_len_def)

text \<open>
  C9. On every value that is neither a list nor an array, \<^verbatim>\<open>map_class_label\<close> and
  \<^verbatim>\<open>to_crop_name\<close> return the same string (the two test the types in opposite order,
  and no value is both string-typed and integer-typed).
\<close>

theorem map_class_label_agrees_on_scalars:
  "\<not> is_ndarray_or_list v \<Longrightarrow>
   to_crop_name render le ci v = Inr (map_class_label render le ci v)"
  by (cases v)
     (simp_all add: to_crop_name_scalar map_class_label_def is_integer_def is_string_def
        is_ndarray_or_list_def split: option.splits)

theorem map_class_label_agrees_on_scalars_witness:
  "\<not> is_ndarray_or_list (NpInteger 1) \<and>
   to_crop_name (\<lambda>_. ''[...]'') None [(''rice'', ''Rice info''), (''banana'', ''Banana info'')]
       (NpInteger 1) = Inr ''rice'' \<and>
   map_class_label (\<lambda>_. ''[...]'') None [(''rice'', ''Rice info''), (''banana'', ''Banana info'')]
       (NpInteger 1) = ''rice''"
  using map_class_label_agrees_on_scalars
          [where v = "NpInteger 1" and render = "\<lambda>_. ''[...]''" and le = None
             and ci = "[(''rice'', ''Rice info''), (''banana'', ''Banana info'')]"]
  by (simp add: is_ndarray_or_list_def map_class_label_def is_string_def is_integer_def
        encoder_lookup_def py_int_def dict_get_def int_to_class_def alphabetical_classes_def
        enumerate_eq_zip upt_rec)

text \<open>
  C10. A list or an array whose length is defined and is not 1 is not unwrapped by
  \<^verbatim>\<open>to_crop_name\<close>: the result is \<^verbatim>\<open>str\<close> of the whole container, which is the
  container's own rendering; the encoder and the fallback mapping play no part.
\<close>

theorem to_crop_name_other_length_stringified:
  "is_ndarray_or_list v \<Longrightarrow> py_len v = Inr n \<Longrightarrow> n \<noteq> 1 \<Longrightarrow>
   to_crop_name render le ci v = Inr (py_str render v) \<and> py_str render v = render v"
  by (cases v)
     (simp_all add: to_crop_name_def is_ndarray_or_list_def py_len_def is_integer_def
        is_string_def py_str_def)

theorem to_crop_name_other_length_stringified_witness:
  "is_ndarray_or_list (PyList [PyInt 0, PyInt 1]) \<and>
   py_len (PyList [PyInt 0, PyInt 1]) = Inr 2 \<and> (2::nat) \<noteq> 1 \<and>
   to_crop_name (\<lambda>_. ''[0, 1]'') None [(''rice'', ''Rice info''), (''banana'', ''Banana info'')]
       (PyList [PyInt 0, PyInt 1]) = Inr ''[0, 1]''"
  using to_crop_name_other_length_stringified
          [where v = "PyList [PyInt 0, PyInt 1]" and n = 2 and render = "\<lambda>_. ''[0, 1]''"
             and le = None and ci = "[(''rice'', ''Rice info''), (''banana'', ''Banana info'')]"]
  by (simp add: is_ndarray_or_list_def py_len_def)

text \<open>
  C4. On an integer input (\<^verbatim>\<open>int\<close>, \<^verbatim>\<open>bool\<close> or \<^verbatim>\<open>np.integer\<close>) \<^verbatim>\<open>to_crop_name\<close> returns
  \<^item> the stringified first item of what the encoder's \<^verbatim>\<open>inverse_transform\<close> returns, when
    an encoder is present and that expression does not raise;
  \<^item> otherwise (no encoder, or \<^verbatim>\<open>inverse_transform\<close> raises) the entry of \<^verbatim>\<open>int_to_class\<close>
    at that index, when there is one;
  \<^item> otherwise the stringified input itself.
\<close>

theorem to_crop_name_integer_resolution:
  "is_integer v \<Longrightarrow>
   (\<forall>f ys y. label_encoder = Some f \<and> f [py_int v] = Inr ys \<and> py_getitem ys 0 = Inr y \<longrightarrow>
      to_crop_name render label_encoder ci v = Inr (py_str render y)) \<and>
   ((label_encoder = None \<or> (\<exists>f e. label_encoder = Some f \<and> f [py_int v] = Inl e)) \<longrightarrow>
      encoder_lookup render label_encoder (py_int v) = None) \<and>
   (\<forall>c. encoder_lookup render label_encoder (py_int v) = None \<and>
        map_of (int_to_class ci) (py_int v) = Some c \<longrightarrow>
      to_crop_name render label_encoder ci v = Inr c) \<and>
   (encoder_lookup render label_encoder (py_int v) = None \<and>
        map_of (int_to_class ci) (py_int v) = None \<longrightarrow>
      to_crop_name render label_encoder ci v = Inr (py_str render v))"
  by (auto simp add: to_crop_name_scalar is_integer_not_container encoder_lookup_def dict_get_def)

theorem to_crop_name_integer_resolution_witness:
  "is_integer (NpInteger 0) \<and> is_integer (PyInt 1) \<and> is_integer (PyInt 7) \<and>
   to_crop_name (\<lambda>_. ''[...]'') (Some (\<lambda>_. Inr (NdArray [NpStr ''maize''])))
       [(''rice'', ''Rice info''), (''banana'', ''Banana info'')] (NpInteger 0) = Inr ''maize'' \<and>
   to_crop_name (\<lambda>_. ''[...]'') (Some (\<lambda>_. Inl ValueError))
       [(''rice'', ''Rice info''), (''banana'', ''Banana info'')] (PyInt 1) = Inr ''rice'' \<and>
   to_crop_name (\<lambda>_. ''[...]'') None
       [(''rice'', ''Rice info''), (''banana'', ''Banana info'')] (PyInt 7) = Inr ''7''"
  using to_crop_name_integer_resolution
          [where v = "NpInteger 0" and render = "\<lambda>_. ''[...]''"
             and label_encoder = "Some (\<lambda>_. Inr (NdArray [NpStr ''maize'']))"
             and ci = "[(''rice'', ''Rice info''), (''banana'', ''Banana info'')]"]
        to_crop_name_integer_resolution
          [where v = "PyInt 1" and render = "\<lambda>_. ''[...]''"
             and label_encoder = "Some (\<lambda>_. Inl ValueError)"
             and ci = "[(''rice'', ''Rice info''), (''banana'', ''Banana info'')]"]
        to_crop_name_integer_resolution
          [where v = "PyInt 7" and render = "\<lambda>_. ''[...]''" and label_encoder = None
             and ci = "[(''rice'', ''Rice info''), (''banana'', ''Banana info'')]"]
  by (simp add: is_integer_def py_int_def py_getitem_def py_str_def encoder_lookup_def
        int_to_class_def alphabetical_classes_def enumerate_eq_zip upt_rec str_int_def
        str_nat.simps)

section \<open>Properties of the fallback mapping\<close>

lemma map_of_int_to_class:
  "map_of (int_to_class ci) k =
     (if 0 \<le> k \<and> nat k < length ci then Some (alphabetical_classes ci ! nat k) else None)"
proof -
  let ?acs = "alphabetical_classes ci"
  have len: "length ?acs = length ci" by (simp add: alphabetical_classes_def)
  have eq: "int_to_class ci = zip (map int [0..<length ?acs]) ?acs"
    by (simp add: int_to_class_def enumerate_eq_zip zip_map1)
  have d: "distinct (map int [0..<length ?acs])"
    by (simp add: distinct_map)
  show ?thesis
  proof (cases "0 \<le> k \<and> nat k < length ci")
    case True
    then have "nat k < length ?acs" using len by simp
    moreover have "map int [0..<length ?acs] ! nat k = k" using True len by simp
    ultimately have "map_of (zip (map int [0..<length ?acs]) ?acs) k = Some (?acs ! nat k)"
      using map_of_zip_nth[of "map int [0..<length ?acs]" ?acs "nat k"] d by simp
    with True show ?thesis by (simp only: eq simp_thms if_True)
  next
    case False
    then have "k \<notin> set (map int [0..<length ?acs])" using len by auto
    then have "map_of (zip (map int [0..<length ?acs]) ?acs) k = None"
      by simp
    with False show ?thesis by (simp only: eq simp_thms if_False)
  qed
qed

lemma alphabetical_classes_set:
  "distinct (map fst ci) \<Longrightarrow>
   alphabetical_classes ci = sorted_list_of_set (set (map fst ci))"
proof -
  assume d: "distinct (map fst ci)"
  have "sorted_list_of_set (set (map fst ci)) = sort (remdups (map fst ci))"
    by (rule sorted_list_of_set_sort_remdups)
  also have "\<dots> = sort (map fst ci)" using d by (simp only: distinct_remdups_id)
  finally show ?thesis by (simp only: alphabetical_classes_def)
qed

text \<open>
  C3. For a catalogue whose keys are pairwise distinct (the keys of a dict), the fallback
  mapping sends every index \<open>i\<close> below the number of keys to the \<open>i\<close>-th element of the
  sorted key set; its domain is exactly those indices, it is injective on them, and it
  depends only on the set of keys, not on the order in which the dict lists them.
\<close>

theorem int_to_class_sorted_enumeration:
  assumes "distinct (map fst ci)"
  shows "(\<forall>i. i < length ci \<longrightarrow>
            map_of (int_to_class ci) (int i) = Some (sorted_list_of_set (set (map fst ci)) ! i)) \<and>
         dom (map_of (int_to_class ci)) = int ` {..<length ci} \<and>
         inj_on (map_of (int_to_class ci)) (int ` {..<length ci}) \<and>
         (\<forall>ci'. distinct (map fst ci') \<and> set (map fst ci') = set (map fst ci) \<longrightarrow>
            int_to_class ci' = int_to_class ci)"
proof (intro conjI allI impI)
  fix i assume "i < length ci"
  then show "map_of (int_to_class ci) (int i) = Some (sorted_list_of_set (set (map fst ci)) ! i)"
    using assms by (simp add: map_of_int_to_class alphabetical_classes_set)
next
  show "dom (map_of (int_to_class ci)) = int ` {..<length ci}"
  proof (rule set_eqI)
    fix k
    show "k \<in> dom (map_of (int_to_class ci)) \<longleftrightarrow> k \<in> int ` {..<length ci}"
    proof
      assume "k \<in> dom (map_of (int_to_class ci))"
      then have "0 \<le> k \<and> nat k < length ci"
        by (auto simp add: map_of_int_to_class dom_def split: if_splits)
      then have "k = int (nat k)" "nat k \<in> {..<length ci}" by simp_all
      then show "k \<in> int ` {..<length ci}" by (rule image_eqI)
    next
      assume "k \<in> int ` {..<length ci}"
      then show "k \<in> dom (map_of (int_to_class ci))"
        by (auto simp add: map_of_int_to_class dom_def)
    qed
  qed
next
  have d: "distinct (alphabetical_classes ci)"
    using assms by (simp add: alphabetical_classes_def)
  have len: "length (alphabetical_classes ci) = length ci" by (simp add: alphabetical_classes_def)
  show "inj_on (map_of (int_to_class ci)) (int ` {..<length ci})"
  proof (rule inj_onI)
    fix a b
    assume a: "a \<in> int ` {..<length ci}" and b: "b \<in> int ` {..<length ci}"
      and e: "map_of (int_to_class ci) a = map_of (int_to_class ci) b"
    from a have ra: "0 \<le> a \<and> nat a < length ci" by auto
    from b have rb: "0 \<le> b \<and> nat b < length ci" by auto
    from e have "alphabetical_classes ci ! nat a = alphabetical_classes ci ! nat b"
      by (simp only: map_of_int_to_class ra rb simp_thms if_True option.inject)
    with d ra rb len have "nat a = nat b" by (simp add: nth_eq_iff_index_eq)
    with ra rb show "a = b" by linarith
  qed
next
  fix ci' :: crop_catalog
  assume h: "distinct (map fst ci') \<and> set (map fst ci') = set (map fst ci)"
  then have "alphabetical_classes ci' = alphabetical_classes ci"
    using assms by (simp add: alphabetical_classes_set)
  then show "int_to_class ci' = int_to_class ci" by (simp add: int_to_class_def)
qed

theorem int_to_class_sorted_enumeration_witness:
  "distinct (map fst [(''wheat'', ''W''), (''banana'', ''B''), (''rice'', ''R'')]) \<and>
   map_of (int_to_class [(''wheat'', ''W''), (''banana'', ''B''), (''rice'', ''R'')]) 0 = Some ''banana'' \<and>
   map_of (int_to_class [(''wheat'', ''W''), (''banana'', ''B''), (''rice'', ''R'')]) 1 = Some ''rice'' \<and>
   map_of (int_to_class [(''wheat'', ''W''), (''banana'', ''B''), (''rice'', ''R'')]) 2 = Some ''wheat'' \<and>
   int_to_class [(''rice'', ''R''), (''wheat'', ''W''), (''banana'', ''B'')] =
     int_to_class [(''wheat'', ''W''), (''banana'', ''B''), (''rice'', ''R'')]"
  using int_to_class_sorted_enumeration
          [where ci = "[(''wheat'', ''W''), (''banana'', ''B''), (''rice'', ''R'')]"]
  by (simp add: int_to_class_def alphabetical_classes_def enumerate_eq_zip upt_rec)

section \<open>Properties of top-k ranking\<close>

lemma short_argsort_contract: "argsort_contract short_argsort probs"
proof -
  let ?ys = "sort_key (\<lambda>i. probs ! i) [0..<length probs]"
  have "sort ?ys = [0..<length probs]"
    by (rule sorted_distinct_set_unique) simp_all
  moreover have "sorted (map (\<lambda>i. probs ! i) ?ys)"
    by (rule sorted_sort_key)
  ultimately show ?thesis
    by (simp add: argsort_contract_def short_argsort_def)
qed

text \<open>
  What the contract gives of the selected indices: they are the first \<open>k\<close> of the reversed
  argsort, pairwise different, within the row, and in order of non-increasing probability.
\<close>

lemma top_k_indices_facts:
  assumes "argsort_contract argsort probs" and "1 \<le> k"
  shows "top_k_indices argsort probs k = take (nat k) (rev (argsort probs))"
    and "length (top_k_indices argsort probs k) = min (nat k) (length probs)"
    and "distinct (top_k_indices argsort probs k)"
    and "\<forall>i\<in>set (top_k_indices argsort probs k). i < length probs"
    and "sorted_wrt (\<lambda>i j. probs ! j \<le> probs ! i) (top_k_indices argsort probs k)"
proof -
  let ?xs = "argsort probs"
  from assms(1) have perm: "sort ?xs = [0..<length probs]"
    and asc: "sorted (map (\<lambda>i. probs ! i) ?xs)"
    by (simp_all add: argsort_contract_def)
  have len: "length ?xs = length probs"
    using arg_cong[OF perm, of length] by simp
  have st: "set ?xs = {0..<length probs}"
    using arg_cong[OF perm, of set] by simp
  have dist: "distinct ?xs"
    using arg_cong[OF perm, of distinct] by simp
  show eq: "top_k_indices argsort probs k = take (nat k) (rev ?xs)"
    using assms(2) by (simp add: top_k_indices_def py_slice_upto_def)
  show "length (top_k_indices argsort probs k) = min (nat k) (length probs)"
    by (simp add: eq len)
  show "distinct (top_k_indices argsort probs k)"
    by (simp add: eq dist)
  have "set (top_k_indices argsort probs k) \<subseteq> set (rev ?xs)"
    unfolding eq by (rule set_take_subset)
  then show "\<forall>i\<in>set (top_k_indices argsort probs k). i < length probs"
    using st by auto
  from asc have "sorted_wrt (\<lambda>i j. probs ! i \<le> probs ! j) ?xs"
    by (simp add: sorted_map)
  then have "sorted_wrt (\<lambda>i j. probs ! j \<le> probs ! i) (rev ?xs)"
    by (simp add: sorted_wrt_rev)
  then show "sorted_wrt (\<lambda>i j. probs ! j \<le> probs ! i) (top_k_indices argsort probs k)"
    unfolding eq by (rule sorted_wrt_take)
qed

lemma rank_entries_map:
  assumes "classes = NdArray cs \<or> classes = PyList cs"
    and "\<forall>i\<in>set idxs. i < length cs \<and> i < length probs"
  shows "rank_entries render le ci classes probs idxs =
     Inr (map (\<lambda>i. \<lparr>label = map_class_label render le ci (cs ! i), probability = probs ! i,
                    info = crop_info_for ci (map_class_label render le ci (cs ! i))\<rparr>) idxs)"
  using assms(2)
proof (induction idxs)
  case Nil
  then show ?case by simp
next
  case (Cons i idxs)
  from Cons.prems have i: "i < length cs" "i < length probs" by simp_all
  then have g: "py_getitem classes i = Inr (cs ! i)"
    using assms(1) by (auto simp add: py_getitem_def)
  from Cons i show ?case by (simp add: g Let_def)
qed

text \<open>
  C2, as the code has it. For a classifier with \<^verbatim>\<open>predict_proba\<close> and \<^verbatim>\<open>classes_\<close>, a first
  probability row \<open>probs\<close>, as many classes as probabilities, \<open>k \<ge> 1\<close> and any \<open>argsort\<close>
  that meets numpy's contract on \<open>probs\<close>, the result has \<open>min k n\<close> entries in order of
  non-increasing probability, one for each selected index with that class's label and
  catalogue text. The selected indices are the first \<open>k\<close> of the reversed argsort, so entries
  of equal probability come in the reverse of the order in which \<open>argsort\<close> returns them:
  the class ordering does not decide it.
\<close>

theorem top_k_predictions_ranked:
  assumes "argsort_contract argsort probs"
    and "model_predict_proba model = Some f"
    and "f feats = Inr (probs # others)"
    and "model_classes model = Some classes"
    and "classes = NdArray cs \<or> classes = PyList cs"
    and "length cs = length probs"
    and "1 \<le> k"
  shows "\<exists>rs. snd (top_k_predictions render argsort le ci model feats k) = Inr (Some rs) \<and>
           length rs = min (nat k) (length probs) \<and>
           sorted_wrt (\<lambda>r s. probability s \<le> probability r) rs \<and>
           rs = map (\<lambda>i. \<lparr>label = map_class_label render le ci (cs ! i), probability = probs ! i,
                           info = crop_info_for ci (map_class_label render le ci (cs ! i))\<rparr>)
                  (top_k_indices argsort probs k) \<and>
           distinct (top_k_indices argsort probs k) \<and>
           top_k_indices argsort probs k = take (nat k) (rev (argsort probs))"
proof -
  let ?idxs = "top_k_indices argsort probs k"
  let ?entry = "\<lambda>i. \<lparr>label = map_class_label render le ci (cs ! i), probability = probs ! i,
                      info = crop_info_for ci (map_class_label render le ci (cs ! i))\<rparr>"
  note facts = top_k_indices_facts[OF assms(1) assms(7)]
  have inr: "\<forall>i\<in>set ?idxs. i < length cs \<and> i < length probs"
    using facts(4) assms(6) by simp
  have re: "rank_entries render le ci classes probs ?idxs = Inr (map ?entry ?idxs)"
    by (rule rank_entries_map[OF assms(5) inr])
  have res: "snd (top_k_predictions render argsort le ci model feats k) =
      Inr (Some (map ?entry ?idxs))"
    by (simp add: top_k_predictions_def assms(2,3,4) re)
  have srt: "sorted_wrt (\<lambda>r s. probability s \<le> probability r) (map ?entry ?idxs)"
    using facts(5) by (simp add: sorted_wrt_map)
  have len: "length (map ?entry ?idxs) = min (nat k) (length probs)"
    using facts(2) by simp
  from res len srt facts(3) facts(1) show ?thesis by blast
qed

theorem top_k_predictions_ranked_witness:
  "argsort_contract short_argsort [1 / 10, 7 / 10, 1 / 5] \<and>
   model_predict_proba spec_model = Some spec_odds \<and>
   spec_odds [[50, 40, 30, 25, 80, 6, 100]] = Inr ([1 / 10, 7 / 10, 1 / 5] # []) \<and>
   model_classes spec_model = Some (NdArray [NpStr ''rice'', NpStr ''maize'', NpStr ''jute'']) \<and>
   length [NpStr ''rice'', NpStr ''maize'', NpStr ''jute''] = length [1 / 10, 7 / 10, 1 / 5 :: real] \<and>
   (1::int) \<le> 2 \<and>
   snd (top_k_predictions plain_render short_argsort None example_catalog spec_model
          [[50, 40, 30, 25, 80, 6, 100]] 2) =
     Inr (Some [\<lparr>label = ''maize'', probability = 7 / 10,
                  info = ''No information available for this crop.''\<rparr>,
                \<lparr>label = ''jute'', probability = 1 / 5,
                  info = ''No information available for this crop.''\<rparr>])"
  using top_k_predictions_ranked
          [where model = spec_model and f = spec_odds and feats = "[[50, 40, 30, 25, 80, 6, 100]]"
             and probs = "[1 / 10, 7 / 10, 1 / 5]" and others = "[]"
             and classes = "NdArray [NpStr ''rice'', NpStr ''maize'', NpStr ''jute'']"
             and cs = "[NpStr ''rice'', NpStr ''maize'', NpStr ''jute'']" and k = 2
             and render = plain_render and le = None and ci = example_catalog
             and argsort = short_argsort]
  by (simp add: argsort_contract_def short_argsort_def spec_model_def spec_odds_def
        top_k_predictions_def top_k_indices_def py_slice_upto_def upt_rec py_getitem_def
        map_class_label_def is_string_def py_str_def crop_info_for_def dict_get_def
        example_catalog_def py_lower_def py_lower_char_def no_info_def Let_def)

text \<open>
  C2 as stated fails on a tie: with probabilities 0.5 and 0.5 for the classes rice and maize
  (in that order), numpy's argsort of the two-element row is 0 then 1, which meets the
  contract; the selected indices are 1 then 0 and maize is listed before rice.
\<close>

theorem top_k_predictions_tie_counterexample:
  "argsort_contract short_argsort [1 / 2, 1 / 2] \<and>
   short_argsort [1 / 2, 1 / 2] = [0, 1] \<and>
   top_k_indices short_argsort [1 / 2, 1 / 2] 2 = [1, 0] \<and>
   snd (top_k_predictions plain_render short_argsort None example_catalog tie_model
          [[50, 40, 30, 25, 80, 6, 100]] 2) =
     Inr (Some [\<lparr>label = ''maize'', probability = 1 / 2,
                  info = ''No information available for this crop.''\<rparr>,
                \<lparr>label = ''rice'', probability = 1 / 2, info = ''Rice info''\<rparr>])"
  by (simp add: argsort_contract_def short_argsort_def tie_model_def even_odds_def
        top_k_predictions_def top_k_indices_def py_slice_upto_def upt_rec py_getitem_def
        map_class_label_def is_string_def py_str_def crop_info_for_def dict_get_def
        example_catalog_def py_lower_def py_lower_char_def no_info_def Let_def)

lemma rank_entries_info:
  "rank_entries render le ci classes probs idxs = Inr rs \<Longrightarrow>
   \<forall>r\<in>set rs. info r = crop_info_for ci (label r)"
proof (induction idxs arbitrary: rs)
  case Nil
  then show ?case by simp
next
  case (Cons idx rest)
  then show ?case
    by (auto simp add: Let_def split: sum.splits if_splits)
qed

lemma top_k_predictions_info:
  "top_k_predictions render argsort le ci model feats k = (calls, Inr (Some rs)) \<Longrightarrow> r \<in> set rs \<Longrightarrow>
   info r = crop_info_for ci (label r)"
  by (auto simp add: top_k_predictions_def split: option.splits sum.splits list.splits
        dest: rank_entries_info)

lemma py_lower_examples:
  "py_lower ''Rice'' = ''rice''" "py_lower ''RICE'' = ''rice''" "py_lower ''rice'' = ''rice''"
  by (simp_all add: py_lower_def py_lower_char_def)

lemma predict_info:
  "predict render argsort parse le ci model req = (calls, PredictionBody lbl blurb top3, st) \<Longrightarrow>
   blurb = crop_info_for ci lbl \<and>
   (\<forall>rs r. top3 = Some rs \<and> r \<in> set rs \<longrightarrow> info r = crop_info_for ci (label r))"
  apply (simp add: predict_def split: option.splits json.splits sum.splits prod.splits list.splits)
  apply (auto dest: top_k_predictions_info)
  done


lemma top_k_predictions_none_iff:
  "snd (top_k_predictions render argsort le ci model feats k) = Inr None \<longleftrightarrow>
     (model_predict_proba model = None \<or>
      (model_classes model = None \<and>
       (\<exists>f proba. model_predict_proba model = Some f \<and> f feats = Inr proba)))"
  by (auto simp add: top_k_predictions_def split: option.splits sum.splits list.splits)

text \<open>
  C5, as the code has it. \<^verbatim>\<open>top_k_predictions\<close> returns \<^verbatim>\<open>None\<close> exactly when the classifier has
  no \<^verbatim>\<open>predict_proba\<close>, or has no \<^verbatim>\<open>classes_\<close> and its \<^verbatim>\<open>predict_proba\<close> call, which is made
  before \<^verbatim>\<open>classes_\<close> is looked for, returned. Without \<^verbatim>\<open>predict_proba\<close> nothing is invoked
  and nothing is raised. Whenever \<^verbatim>\<open>None\<close> is returned to \<^verbatim>\<open>predict\<close>, the response is the
  200 prediction without \<^verbatim>\<open>top_3\<close>.
\<close>

theorem top_k_predictions_unavailable:
  "(snd (top_k_predictions render argsort le ci model feats k) = Inr None \<longleftrightarrow>
      (model_predict_proba model = None \<or>
       (model_classes model = None \<and>
        (\<exists>f proba. model_predict_proba model = Some f \<and> f feats = Inr proba)))) \<and>
   (model_predict_proba model = None \<longrightarrow>
      top_k_predictions render argsort le ci model feats k = ([], Inr None)) \<and>
   (\<forall>data row prediction p0 lbl.
      first_missing required data = None \<and> cast_features parse data required = Inr row \<and>
      model_predict model [row] = Inr prediction \<and> py_getitem prediction 0 = Inr p0 \<and>
      to_crop_name render le ci p0 = Inr lbl \<and>
      snd (top_k_predictions render argsort le ci model [row] 3) = Inr None \<longrightarrow>
      snd (predict render argsort parse le ci model (Some (JObj data))) =
        (PredictionBody lbl (crop_info_for ci lbl) None, 200))"
proof (intro conjI allI impI)
  show "snd (top_k_predictions render argsort le ci model feats k) = Inr None \<longleftrightarrow>
      (model_predict_proba model = None \<or>
       (model_classes model = None \<and>
        (\<exists>f proba. model_predict_proba model = Some f \<and> f feats = Inr proba)))"
    by (rule top_k_predictions_none_iff)
next
  assume "model_predict_proba model = None"
  then show "top_k_predictions render argsort le ci model feats k = ([], Inr None)"
    by (simp add: top_k_predictions_def)
next
  fix data row prediction p0 lbl
  assume h: "first_missing required data = None \<and> cast_features parse data required = Inr row \<and>
      model_predict model [row] = Inr prediction \<and> py_getitem prediction 0 = Inr p0 \<and>
      to_crop_name render le ci p0 = Inr lbl \<and>
      snd (top_k_predictions render argsort le ci model [row] 3) = Inr None"
  obtain calls where "top_k_predictions render argsort le ci model [row] 3 = (calls, Inr None)"
    using h by (cases "top_k_predictions render argsort le ci model [row] 3") auto
  with h show "snd (predict render argsort parse le ci model (Some (JObj data))) =
        (PredictionBody lbl (crop_info_for ci lbl) None, 200)"
    by (simp add: predict_def)
qed

theorem top_k_predictions_unavailable_witness:
  "model_predict_proba label_only_model = None \<and>
   top_k_predictions plain_render short_argsort None example_catalog label_only_model
       [[50, 40, 30, 25, 80, 6, 100]] 3 = ([], Inr None) \<and>
   first_missing required example_request = None \<and>
   cast_features no_parse example_request required = Inr [50, 40, 30, 25, 80, 6, 100] \<and>
   to_crop_name plain_render None example_catalog (NpInteger 0) = Inr ''banana'' \<and>
   snd (predict plain_render short_argsort no_parse None example_catalog label_only_model
          (Some (JObj example_request))) =
     (PredictionBody ''banana'' ''Banana info'' None, 200)"
  using top_k_predictions_unavailable
          [where model = label_only_model and render = plain_render and argsort = short_argsort
             and le = None
             and ci = example_catalog and parse = no_parse
             and feats = "[[50, 40, 30, 25, 80, 6, 100]]" and k = 3]
  by (simp add: label_only_model_def predict_zero_def example_request_def required_def
        py_float_def top_k_predictions_def predict_def py_getitem_def to_crop_name_def
        is_ndarray_or_list_def is_integer_def py_int_def encoder_lookup_def dict_get_def
        int_to_class_def alphabetical_classes_def example_catalog_def enumerate_eq_zip upt_rec
        crop_info_for_def py_lower_def py_lower_char_def)

text \<open>
  C5 as stated fails for a classifier that has \<^verbatim>\<open>predict_proba\<close>, lacks \<^verbatim>\<open>classes_\<close> and whose
  \<^verbatim>\<open>predict_proba\<close> raises (an unfitted estimator): the exception leaves
  \<^verbatim>\<open>top_k_predictions\<close> instead of \<^verbatim>\<open>None\<close> being returned.
\<close>

theorem top_k_predictions_unavailable_counterexample:
  "\<not> (snd (top_k_predictions plain_render short_argsort None example_catalog unfitted_model
             [[50, 40, 30, 25, 80, 6, 100]] 3) = Inr None \<longleftrightarrow>
        (model_predict_proba unfitted_model = None \<or> model_classes unfitted_model = None))"
  by (simp add: unfitted_model_def raise_library_error_def top_k_predictions_def)

section \<open>Properties of the catalogue lookup and of the handler\<close>

text \<open>
  C6. The catalogue is looked up by the lowercased label: labels with the same lowercase
  form get the same text (so \<^verbatim>\<open>Rice\<close>, \<^verbatim>\<open>RICE\<close> and \<^verbatim>\<open>rice\<close> all read the entry \<^verbatim>\<open>rice\<close>), a
  lowercased label missing from the catalogue gets the fixed sentinel, and this is the text
  of the \<^verbatim>\<open>info\<close> field of every prediction response and of every \<^verbatim>\<open>top_3\<close> entry.
\<close>

theorem crop_info_lookup_lowercased:
  "(py_lower l1 = py_lower l2 \<longrightarrow> crop_info_for ci l1 = crop_info_for ci l2) \<and>
   (map_of ci (py_lower l) = None \<longrightarrow>
      crop_info_for ci l = ''No information available for this crop.'') \<and>
   (\<forall>v. map_of ci (py_lower l) = Some v \<longrightarrow> crop_info_for ci l = v) \<and>
   py_lower ''Rice'' = ''rice'' \<and> py_lower ''RICE'' = ''rice'' \<and> py_lower ''rice'' = ''rice'' \<and>
   (\<forall>calls lbl blurb top3 st.
      predict render argsort parse le ci model req = (calls, PredictionBody lbl blurb top3, st) \<longrightarrow>
      blurb = crop_info_for ci lbl \<and>
      (\<forall>rs r. top3 = Some rs \<and> r \<in> set rs \<longrightarrow> info r = crop_info_for ci (label r)))"
proof (intro conjI allI impI)
  assume "py_lower l1 = py_lower l2"
  then show "crop_info_for ci l1 = crop_info_for ci l2" by (simp add: crop_info_for_def)
next
  assume "map_of ci (py_lower l) = None"
  then show "crop_info_for ci l = ''No information available for this crop.''"
    by (simp add: crop_info_for_def dict_get_def no_info_def)
next
  fix v assume "map_of ci (py_lower l) = Some v"
  then show "crop_info_for ci l = v" by (simp add: crop_info_for_def dict_get_def)
next
  show "py_lower ''Rice'' = ''rice''" "py_lower ''RICE'' = ''rice''" "py_lower ''rice'' = ''rice''"
    by (rule py_lower_examples)+
next
  fix calls lbl blurb top3 st
  assume p: "predict render argsort parse le ci model req = (calls, PredictionBody lbl blurb top3, st)"
  from predict_info[OF p] show "blurb = crop_info_for ci lbl" by blast
  fix rs r assume "top3 = Some rs \<and> r \<in> set rs"
  with predict_info[OF p] show "info r = crop_info_for ci (label r)" by blast
qed

theorem crop_info_lookup_lowercased_witness:
  "py_lower ''Rice'' = py_lower ''RICE'' \<and>
   crop_info_for example_catalog ''Rice'' = ''Rice info'' \<and>
   crop_info_for example_catalog ''RICE'' = ''Rice info'' \<and>
   crop_info_for example_catalog ''rice'' = ''Rice info'' \<and>
   map_of example_catalog (py_lower ''Maize'') = None \<and>
   crop_info_for example_catalog ''Maize'' = ''No information available for this crop.'' \<and>
   predict plain_render short_argsort no_parse None example_catalog label_only_model
       (Some (JObj example_request)) =
     ([Predict], PredictionBody ''banana'' ''Banana info'' None, 200)"
  using crop_info_lookup_lowercased
          [where ci = example_catalog and ?l1.0 = "''Rice''" and ?l2.0 = "''RICE''"
             and l = "''Maize''" and render = plain_render and argsort = short_argsort
             and parse = no_parse and le = None
             and model = label_only_model and req = "Some (JObj example_request)"]
        crop_info_lookup_lowercased
          [where ci = example_catalog and ?l1.0 = "''rice''" and ?l2.0 = "''RICE''"
             and l = "''rice''" and render = plain_render and argsort = short_argsort
             and parse = no_parse and le = None
             and model = label_only_model and req = "Some (JObj example_request)"]
  by (simp add: label_only_model_def predict_zero_def example_request_def required_def
        py_float_def top_k_predictions_def predict_def py_getitem_def to_crop_name_def
        is_ndarray_or_list_def is_integer_def py_int_def encoder_lookup_def dict_get_def
        int_to_class_def alphabetical_classes_def example_catalog_def enumerate_eq_zip upt_rec
        crop_info_for_def py_lower_def py_lower_char_def)


lemma first_missing_split:
  "\<exists>k\<in>set ks. k \<notin> fst ` set data \<Longrightarrow>
   \<exists>key pre post. ks = pre @ key # post \<and> first_missing ks data = Some key \<and>
      key \<notin> fst ` set data \<and> set pre \<subseteq> fst ` set data"
proof (induction ks)
  case Nil
  then show ?case by simp
next
  case (Cons k ks)
  show ?case
  proof (cases "k \<in> fst ` set data")
    case False
    then have "k # ks = [] @ k # ks \<and> first_missing (k # ks) data = Some k \<and>
        k \<notin> fst ` set data \<and> set [] \<subseteq> fst ` set data"
      by simp
    then show ?thesis by blast
  next
    case True
    with Cons.prems have "\<exists>k\<in>set ks. k \<notin> fst ` set data" by auto
    from Cons.IH[OF this] obtain key pre post where
      h: "ks = pre @ key # post" "first_missing ks data = Some key"
         "key \<notin> fst ` set data" "set pre \<subseteq> fst ` set data"
      by blast
    from h True have "k # ks = (k # pre) @ key # post \<and> first_missing (k # ks) data = Some key \<and>
        key \<notin> fst ` set data \<and> set (k # pre) \<subseteq> fst ` set data"
      by simp
    then show ?thesis by blast
  qed
qed

text \<open>
  C7. When the JSON object of the request lacks at least one required field, \<^verbatim>\<open>predict\<close>
  answers 400 with \<^verbatim>\<open>Missing field: key\<close>, where \<open>key\<close> is the first field of \<open>required\<close>
  that is absent (all fields before it are present), and the classifier is not invoked.
\<close>

theorem predict_missing_field_400:
  assumes "\<exists>k\<in>set required. k \<notin> fst ` set data"
  shows "\<exists>key pre post. required = pre @ key # post \<and> set pre \<subseteq> fst ` set data \<and>
           key \<notin> fst ` set data \<and>
           predict render argsort parse le ci model (Some (JObj data)) =
             ([], ErrorBody (''Missing field: '' @ key), 400)"
proof -
  from first_missing_split[OF assms] obtain key pre post where
    h: "required = pre @ key # post" "first_missing required data = Some key"
       "key \<notin> fst ` set data" "set pre \<subseteq> fst ` set data"
    by blast
  have "predict render argsort parse le ci model (Some (JObj data)) =
          ([], ErrorBody (''Missing field: '' @ key), 400)"
    by (simp add: predict_def h(2))
  with h show ?thesis by blast
qed

theorem predict_missing_field_400_witness:
  "(\<exists>k\<in>set required. k \<notin> fst ` set [(''nitrogen'', JNum 50), (''phosphorus'', JNum 40)]) \<and>
   predict plain_render short_argsort no_parse None example_catalog label_only_model
       (Some (JObj [(''nitrogen'', JNum 50), (''phosphorus'', JNum 40)])) =
     ([], ErrorBody ''Missing field: potassium'', 400)"
  using predict_missing_field_400
          [where data = "[(''nitrogen'', JNum 50), (''phosphorus'', JNum 40)]"
             and render = plain_render and argsort = short_argsort and parse = no_parse
             and le = None and ci = example_catalog and model = label_only_model]
  by (simp add: predict_def required_def)

end
